theory Spec2Isabelle
  imports Complex_Main
begin

section \<open>Values of the JavaScript runtime\<close>

text \<open>
  \<^verbatim>\<open>App.js\<close> holds one React component. Everything it stores comes from
  \<^verbatim>\<open>res.json()\<close> or is the literal \<^verbatim>\<open>null\<close>, so a value is a JSON value or
  \<^verbatim>\<open>undefined\<close> (what a read of an absent property gives). The code copies numbers and
  never computes with them; a number is a \<open>real\<close>, of which every finite double is one.
  An object is the list of its own properties, read with \<open>map_of\<close>. A string is a
  list of characters; the source's strings are sequences of UTF-16 code units, a difference
  that shows only where a string is read by index.
\<close>

datatype jsval =
    JUndefined
  | JNull
  | JBool bool
  | JNum real
  | JStr string
  | JArr "jsval list"
  | JObj "(string \<times> jsval) list"

text \<open>What the \<^verbatim>\<open>try\<close> block can throw: \<^verbatim>\<open>fetch\<close> rejects, \<^verbatim>\<open>res.json()\<close>
  rejects, or a property is read from \<^verbatim>\<open>null\<close> or \<^verbatim>\<open>undefined\<close>.\<close>

datatype exn = NetworkFailure | SyntaxError | TypeError

text \<open>
  \<^verbatim>\<open>data.image_url\<close>, \<^verbatim>\<open>data.last_updated\<close>, \<^verbatim>\<open>data.bounds\<close>: a read of a named
  property. On \<^verbatim>\<open>null\<close> and \<^verbatim>\<open>undefined\<close> it throws; on an object it gives the own
  property or \<^verbatim>\<open>undefined\<close>; on every other value it gives \<^verbatim>\<open>undefined\<close>, since none
  of the three names is a property of an array, a string, a number or a boolean.
\<close>

fun get_named :: "jsval \<Rightarrow> string \<Rightarrow> exn + jsval" where
  "get_named JUndefined k = Inl TypeError"
| "get_named JNull k = Inl TypeError"
| "get_named (JObj kvs) k = Inr (case map_of kvs k of None \<Rightarrow> JUndefined | Some v \<Rightarrow> v)"
| "get_named (JBool b) k = Inr JUndefined"
| "get_named (JNum x) k = Inr JUndefined"
| "get_named (JStr s) k = Inr JUndefined"
| "get_named (JArr xs) k = Inr JUndefined"

text \<open>The property key of an index: its decimal numeral.\<close>

definition digits :: string where
  "digits = ''0123456789''"

fun index_key :: "nat \<Rightarrow> string" where
  "index_key n =
     (if n < 10 then [digits ! n] else index_key (n div 10) @ [digits ! (n mod 10)])"

declare index_key.simps [simp del]

text \<open>
  \<^verbatim>\<open>b[0]\<close> .. \<^verbatim>\<open>b[3]\<close>: a read by index. It throws on \<^verbatim>\<open>null\<close> and
  \<^verbatim>\<open>undefined\<close>; an array gives its element, a string the one-character string at
  that position, an object its property named by the numeral; out of range, and on a
  number or a boolean, the read gives \<^verbatim>\<open>undefined\<close>.
\<close>

fun get_index :: "jsval \<Rightarrow> nat \<Rightarrow> exn + jsval" where
  "get_index JUndefined i = Inl TypeError"
| "get_index JNull i = Inl TypeError"
| "get_index (JArr xs) i = Inr (if i < length xs then xs ! i else JUndefined)"
| "get_index (JStr s) i = Inr (if i < length s then JStr [s ! i] else JUndefined)"
| "get_index (JObj kvs) i =
     Inr (case map_of kvs (index_key i) of None \<Rightarrow> JUndefined | Some v \<Rightarrow> v)"
| "get_index (JBool b) i = Inr JUndefined"
| "get_index (JNum x) i = Inr JUndefined"

text \<open>\<^verbatim>\<open>data.bounds[i]\<close>, as the source writes it four times.\<close>

definition bounds_at :: "jsval \<Rightarrow> nat \<Rightarrow> exn + jsval" where
  "bounds_at data i =
     (case get_named data ''bounds'' of Inl e \<Rightarrow> Inl e | Inr b \<Rightarrow> get_index b i)"

text \<open>Truthiness, as \<^verbatim>\<open>&&\<close> in the JSX tests it.\<close>

fun truthy :: "jsval \<Rightarrow> bool" where
  "truthy JUndefined = False"
| "truthy JNull = False"
| "truthy (JBool b) = b"
| "truthy (JNum x) = (x \<noteq> 0)"
| "truthy (JStr s) = (s \<noteq> [])"
| "truthy (JArr xs) = True"
| "truthy (JObj kvs) = True"

section \<open>The component's state\<close>

text \<open>The four \<^verbatim>\<open>useState\<close> hooks of \<^verbatim>\<open>App\<close> (lines 7 to 13).\<close>

record app_state =
  metadata :: jsval
  radarUrl :: jsval
  lastUpdated :: jsval
  bounds :: jsval

definition default_bounds :: jsval where
  "default_bounds = JArr [JArr [JNum 20, JNum (- 130)], JArr [JNum 55, JNum (- 60)]]"

definition init_state :: app_state where
  "init_state =
     \<lparr> metadata = JNull, radarUrl = JNull, lastUpdated = JNull, bounds = default_bounds \<rparr>"

text \<open>The display state of the specification: the three fields a refresh assigns.\<close>

definition display :: "app_state \<Rightarrow> jsval \<times> jsval \<times> jsval" where
  "display a = (radarUrl a, lastUpdated a, bounds a)"

text \<open>A call of one of the setters. No call of \<^verbatim>\<open>setMetadata\<close> occurs in the source.\<close>

datatype update = SetRadarUrl jsval | SetLastUpdated jsval | SetBounds jsval

fun apply_update :: "app_state \<Rightarrow> update \<Rightarrow> app_state" where
  "apply_update a (SetRadarUrl v) = a\<lparr>radarUrl := v\<rparr>"
| "apply_update a (SetLastUpdated v) = a\<lparr>lastUpdated := v\<rparr>"
| "apply_update a (SetBounds v) = a\<lparr>bounds := v\<rparr>"

section \<open>fetchMetadata\<close>

text \<open>
  What the two awaited calls deliver is the input of the model. \<^verbatim>\<open>fetch\<close> rejects on
  a network failure and resolves with a response of any status otherwise; \<^verbatim>\<open>res.json()\<close>
  rejects when the body is not JSON and resolves with the parsed value otherwise. The code
  reads neither \<^verbatim>\<open>res.ok\<close> nor \<^verbatim>\<open>res.status\<close>.
\<close>

datatype body = ParseFailure | Parsed jsval

datatype fetch_result = NetworkError | Response nat body

text \<open>
  The \<^verbatim>\<open>try\<close> block (lines 19 to 26), statement by statement: the setter calls made so
  far, and the exception that ended the block, if one did. The block reads no state.
\<close>

fun try_block :: "fetch_result \<Rightarrow> update list \<times> exn option" where
  "try_block NetworkError = ([], Some NetworkFailure)"
| "try_block (Response status ParseFailure) = ([], Some SyntaxError)"
| "try_block (Response status (Parsed data)) =
     (case get_named data ''image_url'' of
        Inl e \<Rightarrow> ([], Some e)
      | Inr u \<Rightarrow>
     (case get_named data ''last_updated'' of
        Inl e \<Rightarrow> ([SetRadarUrl u], Some e)
      | Inr t \<Rightarrow>
     (case bounds_at data 0 of
        Inl e \<Rightarrow> ([SetRadarUrl u, SetLastUpdated t], Some e)
      | Inr b0 \<Rightarrow>
     (case bounds_at data 1 of
        Inl e \<Rightarrow> ([SetRadarUrl u, SetLastUpdated t], Some e)
      | Inr b1 \<Rightarrow>
     (case bounds_at data 2 of
        Inl e \<Rightarrow> ([SetRadarUrl u, SetLastUpdated t], Some e)
      | Inr b2 \<Rightarrow>
     (case bounds_at data 3 of
        Inl e \<Rightarrow> ([SetRadarUrl u, SetLastUpdated t], Some e)
      | Inr b3 \<Rightarrow>
          ([SetRadarUrl u, SetLastUpdated t,
            SetBounds (JArr [JArr [b0, b1], JArr [b2, b3]])], None)))))))"

text \<open>
  The whole function (lines 17 to 30): the \<^verbatim>\<open>catch\<close> clause takes every exception of
  the block and writes it to the console, so nothing is left to throw.
\<close>

record effects =
  updates :: "update list"
  logged :: "exn list"
  thrown :: "exn option"

definition fetchMetadata :: "fetch_result \<Rightarrow> effects" where
  "fetchMetadata r =
     (case try_block r of
        (us, None) \<Rightarrow> \<lparr> updates = us, logged = [], thrown = None \<rparr>
      | (us, Some err) \<Rightarrow> \<lparr> updates = us, logged = [err], thrown = None \<rparr>)"

text \<open>The state once the setter calls of one run of \<^verbatim>\<open>fetchMetadata\<close> are applied.\<close>

definition refresh :: "fetch_result \<Rightarrow> app_state \<Rightarrow> app_state" where
  "refresh r a = foldl apply_update a (updates (fetchMetadata r))"

section \<open>Rendering\<close>

text \<open>Line 55: the overlay is rendered, with these props, only when \<^verbatim>\<open>radarUrl\<close> is truthy.\<close>

record overlay_props =
  url :: jsval
  overlay_bounds :: jsval
  opacity :: real

definition overlay :: "app_state \<Rightarrow> overlay_props option" where
  "overlay a =
     (if truthy (radarUrl a)
      then Some \<lparr> url = radarUrl a, overlay_bounds = bounds a, opacity = 7 / 10 \<rparr>
      else None)"



section \<open>Backend payloads\<close>

text \<open>The payload of the specification's scenario.\<close>

definition scenario_payload :: jsval where
  "scenario_payload =
     JObj [(''image_url'', JStr ''http://x/img.png''),
           (''last_updated'', JStr ''2024-01-01T00:00Z''),
           (''bounds'', JArr [JNum 25, JNum (- 120), JNum 50, JNum (- 70)])]"


text \<open>A parsed body that is a RadarMetadata document: an object with two strings and an
  array of four numbers under the three names.\<close>

definition is_radar_metadata ::
  "jsval \<Rightarrow> string \<Rightarrow> string \<Rightarrow> real \<Rightarrow> real \<Rightarrow> real \<Rightarrow> real \<Rightarrow> bool" where
  "is_radar_metadata d u t s w n e =
     (case d of
        JObj kvs \<Rightarrow>
          map_of kvs ''image_url'' = Some (JStr u) \<and>
          map_of kvs ''last_updated'' = Some (JStr t) \<and>
          map_of kvs ''bounds'' = Some (JArr [JNum s, JNum w, JNum n, JNum e])
      | _ \<Rightarrow> False)"

text \<open>The same, without naming the six values.\<close>

definition is_num :: "jsval \<Rightarrow> bool" where
  "is_num v = (case v of JNum x \<Rightarrow> True | _ \<Rightarrow> False)"

definition is_str :: "jsval \<Rightarrow> bool" where
  "is_str v = (case v of JStr x \<Rightarrow> True | _ \<Rightarrow> False)"

definition well_formed_metadata :: "jsval \<Rightarrow> bool" where
  "well_formed_metadata d =
     (case d of
        JObj kvs \<Rightarrow>
          (case map_of kvs ''image_url'' of Some v \<Rightarrow> is_str v | None \<Rightarrow> False) \<and>
          (case map_of kvs ''last_updated'' of Some v \<Rightarrow> is_str v | None \<Rightarrow> False) \<and>
          (case map_of kvs ''bounds'' of
             Some (JArr xs) \<Rightarrow> length xs = 4 \<and> list_all is_num xs
           | _ \<Rightarrow> False)
      | _ \<Rightarrow> False)"

text \<open>The shapes a \<^verbatim>\<open>bounds\<close> value can have: two entries of two entries each, and
  the same with a number in each of the four places.\<close>

definition is_pair :: "jsval \<Rightarrow> bool" where
  "is_pair v = (case v of JArr xs \<Rightarrow> length xs = 2 | _ \<Rightarrow> False)"

definition shape2x2 :: "jsval \<Rightarrow> bool" where
  "shape2x2 v = (case v of JArr xs \<Rightarrow> length xs = 2 \<and> list_all is_pair xs | _ \<Rightarrow> False)"

definition is_coordinate_pair :: "jsval \<Rightarrow> bool" where
  "is_coordinate_pair v =
     (case v of JArr xs \<Rightarrow> length xs = 2 \<and> list_all is_num xs | _ \<Rightarrow> False)"

definition coordinate_pairs :: "jsval \<Rightarrow> bool" where
  "coordinate_pairs v =
     (case v of JArr xs \<Rightarrow> length xs = 2 \<and> list_all is_coordinate_pair xs | _ \<Rightarrow> False)"

section \<open>The polling cycle\<close>

text \<open>
  The effect of lines 32 to 36 runs when the component mounts: it calls
  \<^verbatim>\<open>fetchMetadata\<close> once and registers it with \<^verbatim>\<open>setInterval\<close>; its cleanup calls
  \<^verbatim>\<open>clearInterval\<close>. \<^verbatim>\<open>BACKEND\<close> is the same on every render, so the callback is
  stable and the effect runs once per mount: while the timer is registered, a further
  \<open>Mount\<close> is no event of the component and the model lets it change nothing.
  \<open>Unmount\<close> is the cleanup being run, also when React unmounts the component because
  its render has thrown. The timer is registered exactly while the component is mounted.

  The runtime is single-threaded; what happens is a sequence of events. The model keeps a
  clock in milliseconds, the time at which the interval timer was registered (\<open>None\<close>:
  no timer), the number of requests in flight, the time of every request issued, and
  every setter call made. A timer registered at \<open>t0\<close> is due at \<open>t0 + k * interval_ms\<close>
  for \<open>k = 1, 2, ...\<close>
\<close>

definition interval_ms :: nat where
  "interval_ms = 5 * 60 * 1000"

record poller =
  app :: app_state
  console :: "exn list"
  calls :: "update list"
  clock :: nat
  interval :: "nat option"
  pending :: nat
  attempts :: "nat list"

definition init_poller :: poller where
  "init_poller =
     \<lparr> app = init_state, console = [], calls = [], clock = 0, interval = None,
       pending = 0, attempts = [] \<rparr>"

text \<open>A call of \<^verbatim>\<open>fetchMetadata\<close> runs up to the first \<^verbatim>\<open>await\<close>: the request is
  issued.\<close>

definition fetch_start :: "poller \<Rightarrow> poller" where
  "fetch_start s = s\<lparr> pending := Suc (pending s), attempts := attempts s @ [clock s] \<rparr>"

text \<open>
  A request in flight settles with result \<open>r\<close> and the rest of \<^verbatim>\<open>fetchMetadata\<close> runs.
  No state is assigned between the two awaits, so they are one step. The source tests
  nothing before it calls the setters, so the calls and the console entry are made whether
  or not the component is still mounted. The calls change the state only while it is
  mounted: after the cleanup the state of the component is discarded, and React drops a
  setter call that reaches it.
\<close>

definition fetch_settle :: "fetch_result \<Rightarrow> poller \<Rightarrow> poller" where
  "fetch_settle r s =
     (if pending s = 0 then s
      else s\<lparr> app := (if interval s = None then app s else refresh r (app s)),
              console := console s @ logged (fetchMetadata r),
              calls := calls s @ updates (fetchMetadata r),
              pending := pending s - 1 \<rparr>)"

text \<open>The timer fires at time \<open>t\<close>: the callback is \<^verbatim>\<open>fetchMetadata\<close>.\<close>

definition fire :: "poller \<Rightarrow> nat \<Rightarrow> poller" where
  "fire s t = fetch_start (s\<lparr> clock := t \<rparr>)"

text \<open>The times at which a timer registered at \<open>t0\<close> is due after \<open>c\<close> and up to
  \<open>c + d\<close>.\<close>

definition fire_times :: "nat \<Rightarrow> nat \<Rightarrow> nat \<Rightarrow> nat list" where
  "fire_times t0 c d =
     map (\<lambda>k. t0 + k * interval_ms)
       [Suc ((c - t0) div interval_ms) ..< Suc ((c + d - t0) div interval_ms)]"

datatype event = Mount | Unmount | Elapse nat | Settle fetch_result

fun step :: "poller \<Rightarrow> event \<Rightarrow> poller" where
  "step s Mount =
     (if interval s = None then (fetch_start s)\<lparr> interval := Some (clock s) \<rparr> else s)"
| "step s Unmount = s\<lparr> interval := None \<rparr>"
| "step s (Elapse d) =
     (case interval s of
        None \<Rightarrow> s\<lparr> clock := clock s + d \<rparr>
      | Some t0 \<Rightarrow> (foldl fire s (fire_times t0 (clock s) d))\<lparr> clock := clock s + d \<rparr>)"
| "step s (Settle r) = fetch_settle r s"

definition run :: "event list \<Rightarrow> poller \<Rightarrow> poller" where
  "run es s = foldl step s es"

text \<open>Classes of events and results that the statements below speak of.\<close>

definition rejected :: "fetch_result \<Rightarrow> bool" where
  "rejected r =
     (case r of NetworkError \<Rightarrow> True | Response status b \<Rightarrow>
        (case b of ParseFailure \<Rightarrow> True | Parsed d \<Rightarrow> False))"

definition delivers_metadata :: "fetch_result \<Rightarrow> bool" where
  "delivers_metadata r =
     (case r of NetworkError \<Rightarrow> False | Response status b \<Rightarrow>
        (case b of ParseFailure \<Rightarrow> False | Parsed d \<Rightarrow> well_formed_metadata d))"

fun only_rejections :: "event \<Rightarrow> bool" where
  "only_rejections (Settle r) = rejected r"
| "only_rejections e = True"

fun benign :: "event \<Rightarrow> bool" where
  "benign (Settle r) = (rejected r \<or> delivers_metadata r)"
| "benign e = True"

fun not_mount :: "event \<Rightarrow> bool" where
  "not_mount Mount = False"
| "not_mount e = True"

fun ticking :: "event \<Rightarrow> bool" where
  "ticking (Elapse d) = True"
| "ticking (Settle r) = True"
| "ticking e = False"

fun elapsed :: "event list \<Rightarrow> nat" where
  "elapsed [] = 0"
| "elapsed (Elapse d # es) = d + elapsed es"
| "elapsed (e # es) = elapsed es"

section \<open>Properties of one refresh\<close>

lemma try_block_metadata:
  assumes "is_radar_metadata d u t s w n e"
  shows "try_block (Response status (Parsed d)) =
     ([SetRadarUrl (JStr u), SetLastUpdated (JStr t),
       SetBounds (JArr [JArr [JNum s, JNum w], JArr [JNum n, JNum e]])], None)"
  using assms by (cases d) (simp_all add: is_radar_metadata_def bounds_at_def)

lemma refresh_metadata:
  assumes "is_radar_metadata d u t s w n e"
  shows "refresh (Response status (Parsed d)) a =
     a\<lparr> radarUrl := JStr u, lastUpdated := JStr t,
        bounds := JArr [JArr [JNum s, JNum w], JArr [JNum n, JNum e]] \<rparr>"
  unfolding refresh_def fetchMetadata_def try_block_metadata [OF assms] by simp

lemma scenario_is_metadata:
  "is_radar_metadata scenario_payload ''http://x/img.png'' ''2024-01-01T00:00Z''
     25 (- 120) 50 (- 70)"
  by (simp add: is_radar_metadata_def scenario_payload_def)

lemma refresh_rejected:
  "rejected r \<Longrightarrow> refresh r a = a"
  by (cases r) (auto simp: rejected_def refresh_def fetchMetadata_def split: body.splits)

text \<open>How the \<^verbatim>\<open>try\<close> block can end: after no setter call, after one, after two, or
  after all three, and only then without an exception.\<close>

lemma try_block_cases:
  "(\<exists>e. try_block r = ([], Some e)) \<or>
   (\<exists>u e. try_block r = ([SetRadarUrl u], Some e)) \<or>
   (\<exists>u t e. try_block r = ([SetRadarUrl u, SetLastUpdated t], Some e)) \<or>
   (\<exists>u t b0 b1 b2 b3. try_block r =
      ([SetRadarUrl u, SetLastUpdated t, SetBounds (JArr [JArr [b0, b1], JArr [b2, b3]])],
       None))"
proof (cases r)
  case NetworkError
  then show ?thesis by simp
next
  case (Response status b)
  show ?thesis
  proof (cases b)
    case ParseFailure
    with Response show ?thesis by simp
  next
    case (Parsed d)
    with Response show ?thesis by (simp split: sum.splits)
  qed
qed

text \<open>
  C1, as amended. A refresh whose \<^verbatim>\<open>fetch\<close> rejects (network failure), or whose body
  does not parse as JSON whatever the HTTP status, calls no setter: the state after it is
  the state before it, and the failure is logged. The status of a response plays no part
  in what \<^verbatim>\<open>fetchMetadata\<close> does with its body.
\<close>

theorem refresh_rejection_leaves_state:
  "refresh NetworkError a = a \<and>
   refresh (Response status ParseFailure) a = a \<and>
   updates (fetchMetadata NetworkError) = [] \<and>
   updates (fetchMetadata (Response status ParseFailure)) = [] \<and>
   logged (fetchMetadata NetworkError) = [NetworkFailure] \<and>
   logged (fetchMetadata (Response status ParseFailure)) = [SyntaxError] \<and>
   fetchMetadata (Response status b) = fetchMetadata (Response status' b)"
proof -
  have "fetchMetadata (Response status b) = fetchMetadata (Response status' b)"
    by (cases b) (simp_all add: fetchMetadata_def)
  then show ?thesis
    by (simp add: refresh_def fetchMetadata_def)
qed

text \<open>
  C1 as stated fails: the source never reads the status of the response, so an HTTP 500
  that carries a metadata document replaces the display state like any other response.
\<close>

theorem refresh_http_500_counterexample:
  "display (refresh (Response 500 (Parsed scenario_payload)) init_state) \<noteq> display init_state"
  by (simp add: refresh_metadata [OF scenario_is_metadata] display_def init_state_def)

text \<open>
  C3. For a RadarMetadata document with bounds \<open>[s, w, n, e]\<close> the refresh stores
  \<open>[[s, w], [n, e]]\<close>, in this order, together with the two strings; the payload of the
  scenario gives the display state the specification lists.
\<close>

theorem refresh_nests_bounds_in_order:
  "(is_radar_metadata d u t s w n e \<longrightarrow>
      display (refresh (Response status (Parsed d)) a) =
        (JStr u, JStr t, JArr [JArr [JNum s, JNum w], JArr [JNum n, JNum e]])) \<and>
   display (refresh (Response 200 (Parsed scenario_payload)) a) =
     (JStr ''http://x/img.png'', JStr ''2024-01-01T00:00Z'',
      JArr [JArr [JNum 25, JNum (- 120)], JArr [JNum 50, JNum (- 70)]])"
  by (simp add: refresh_metadata refresh_metadata [OF scenario_is_metadata] display_def)

theorem refresh_nests_bounds_in_order_witness:
  "is_radar_metadata
     (JObj [(''bounds'', JArr [JNum 24, JNum (- 125), JNum 49, JNum (- 66)]),
            (''source'', JStr ''MRMS''),
            (''last_updated'', JStr ''2025-06-01T12:00Z''),
            (''image_url'', JStr ''http://y/rala.png'')])
     ''http://y/rala.png'' ''2025-06-01T12:00Z'' 24 (- 125) 49 (- 66) \<and>
   display (refresh (Response 200 (Parsed
     (JObj [(''bounds'', JArr [JNum 24, JNum (- 125), JNum 49, JNum (- 66)]),
            (''source'', JStr ''MRMS''),
            (''last_updated'', JStr ''2025-06-01T12:00Z''),
            (''image_url'', JStr ''http://y/rala.png'')]))) init_state) =
     (JStr ''http://y/rala.png'', JStr ''2025-06-01T12:00Z'',
      JArr [JArr [JNum 24, JNum (- 125)], JArr [JNum 49, JNum (- 66)]])"
proof -
  let ?d = "JObj [(''bounds'', JArr [JNum 24, JNum (- 125), JNum 49, JNum (- 66)]),
            (''source'', JStr ''MRMS''),
            (''last_updated'', JStr ''2025-06-01T12:00Z''),
            (''image_url'', JStr ''http://y/rala.png'')]"
  have h: "is_radar_metadata ?d ''http://y/rala.png'' ''2025-06-01T12:00Z'' 24 (- 125) 49 (- 66)"
    by (simp add: is_radar_metadata_def)
  from refresh_nests_bounds_in_order
    [of ?d "''http://y/rala.png''" "''2025-06-01T12:00Z''" 24 "- 125" 49 "- 66" 200 init_state]
  show ?thesis using h by blast
qed

section \<open>Properties of the polling cycle\<close>

lemma run_Nil [simp]: "run [] s = s"
  by (simp add: run_def)

lemma run_Cons [simp]: "run (e # es) s = run es (step s e)"
  by (simp add: run_def)

lemma foldl_fire:
  "app (foldl fire s ts) = app s \<and> console (foldl fire s ts) = console s \<and>
   calls (foldl fire s ts) = calls s \<and> interval (foldl fire s ts) = interval s \<and>
   pending (foldl fire s ts) = pending s + length ts \<and>
   attempts (foldl fire s ts) = attempts s @ ts"
  by (induction ts arbitrary: s) (simp_all add: fire_def fetch_start_def)

lemma refresh_keeps_metadata: "metadata (refresh r a) = metadata a"
  using try_block_cases [of r]
  by (auto simp: refresh_def fetchMetadata_def)

lemma step_app: "app (step s e) = app s \<or> (\<exists>r. app (step s e) = refresh r (app s))"
  by (cases e) (auto simp: fetch_start_def fetch_settle_def foldl_fire split: option.splits)

lemma step_only_rejections: "only_rejections e \<Longrightarrow> app (step s e) = app s"
  by (cases e)
    (auto simp: fetch_start_def fetch_settle_def foldl_fire refresh_rejected split: option.splits)

lemma run_only_rejections: "list_all only_rejections es \<Longrightarrow> app (run es s) = app s"
  by (induction es arbitrary: s) (simp_all add: step_only_rejections)

text \<open>
  C4, as amended. In the initial state, and after any sequence of events in which every
  request that settled was rejected (network failure or a body that is not JSON), the
  bounds are the default ones, \<^verbatim>\<open>radarUrl\<close> and \<^verbatim>\<open>lastUpdated\<close> are \<^verbatim>\<open>null\<close>, and
  no overlay is rendered.
\<close>

theorem default_state_until_a_body_parses:
  "list_all only_rejections es \<Longrightarrow>
     display (app (run es init_poller)) =
       (JNull, JNull, JArr [JArr [JNum 20, JNum (- 130)], JArr [JNum 55, JNum (- 60)]]) \<and>
     overlay (app (run es init_poller)) = None"
  by (simp add: run_only_rejections init_poller_def init_state_def default_bounds_def
      display_def overlay_def)

theorem default_state_until_a_body_parses_witness:
  "list_all only_rejections
     [Mount, Settle NetworkError, Elapse 300000, Settle (Response 502 ParseFailure)] \<and>
   display (app (run [Mount, Settle NetworkError, Elapse 300000,
       Settle (Response 502 ParseFailure)] init_poller)) =
     (JNull, JNull, JArr [JArr [JNum 20, JNum (- 130)], JArr [JNum 55, JNum (- 60)]]) \<and>
   overlay (app (run [Mount, Settle NetworkError, Elapse 300000,
       Settle (Response 502 ParseFailure)] init_poller)) = None"
proof -
  have h: "list_all only_rejections
     [Mount, Settle NetworkError, Elapse 300000, Settle (Response 502 ParseFailure)]"
    by (simp add: rejected_def)
  from default_state_until_a_body_parses [OF h] h show ?thesis by simp
qed

text \<open>
  C4 as stated fails: a body that parses but has no \<^verbatim>\<open>bounds\<close> ends the \<^verbatim>\<open>try\<close>
  block with a TypeError, after \<^verbatim>\<open>setRadarUrl\<close> has been called. No fetch has
  succeeded, and the overlay is rendered with the URL of that body.
\<close>

theorem overlay_before_success_counterexample:
  "snd (try_block (Response 200 (Parsed (JObj [(''image_url'', JStr ''http://x/img.png'')]))))
     = Some TypeError \<and>
   overlay (app (run [Mount,
       Settle (Response 200 (Parsed (JObj [(''image_url'', JStr ''http://x/img.png'')])))]
       init_poller)) =
     Some \<lparr> url = JStr ''http://x/img.png'', overlay_bounds = default_bounds,
            opacity = 7 / 10 \<rparr>"
  by (simp add: bounds_at_def init_poller_def init_state_def fetch_start_def
      fetch_settle_def refresh_def fetchMetadata_def overlay_def)

lemma refresh_shape: "shape2x2 (bounds a) \<Longrightarrow> shape2x2 (bounds (refresh r a))"
  using try_block_cases [of r]
  by (auto simp: refresh_def fetchMetadata_def shape2x2_def is_pair_def)

lemma step_shape: "shape2x2 (bounds (app s)) \<Longrightarrow> shape2x2 (bounds (app (step s e)))"
  using step_app [of s e] by (auto simp: refresh_shape)

lemma run_shape: "shape2x2 (bounds (app s)) \<Longrightarrow> shape2x2 (bounds (app (run es s)))"
  by (induction es arbitrary: s) (simp_all add: step_shape)

lemma four_numbers:
  assumes "length xs = 4" and "list_all is_num xs"
  shows "\<exists>s w n e. xs = [JNum s, JNum w, JNum n, JNum e]"
proof -
  from assms(1) obtain a b c d where xs: "xs = [a, b, c, d]"
    by (auto simp: numeral_eq_Suc length_Suc_conv)
  with assms(2) show ?thesis
    by (auto simp: is_num_def split: jsval.splits)
qed

lemma well_formed_is_radar_metadata:
  assumes "well_formed_metadata d"
  shows "\<exists>u t s w n e. is_radar_metadata d u t s w n e"
proof -
  from assms obtain kvs where d: "d = JObj kvs"
    by (cases d) (simp_all add: well_formed_metadata_def)
  from assms d obtain u where u: "map_of kvs ''image_url'' = Some (JStr u)"
    by (auto simp: well_formed_metadata_def is_str_def split: option.splits jsval.splits)
  from assms d obtain t where t: "map_of kvs ''last_updated'' = Some (JStr t)"
    by (auto simp: well_formed_metadata_def is_str_def split: option.splits jsval.splits)
  from assms d obtain xs where xs: "map_of kvs ''bounds'' = Some (JArr xs)"
    and len: "length xs = 4" and nums: "list_all is_num xs"
    by (auto simp: well_formed_metadata_def split: option.splits jsval.splits)
  from four_numbers [OF len nums] obtain s w n e
    where "xs = [JNum s, JNum w, JNum n, JNum e]" by blast
  with d u t xs have "is_radar_metadata d u t s w n e"
    by (simp add: is_radar_metadata_def)
  then show ?thesis by blast
qed

lemma refresh_coordinates:
  assumes "delivers_metadata r"
  shows "coordinate_pairs (bounds (refresh r a))"
proof -
  from assms obtain status d where r: "r = Response status (Parsed d)"
    and wf: "well_formed_metadata d"
    by (auto simp: delivers_metadata_def split: fetch_result.splits body.splits)
  from well_formed_is_radar_metadata [OF wf] obtain u t s w n e
    where "is_radar_metadata d u t s w n e" by blast
  then show ?thesis
    by (simp add: r refresh_metadata coordinate_pairs_def is_coordinate_pair_def is_num_def)
qed

lemma step_coordinates:
  assumes "coordinate_pairs (bounds (app s))" and "benign e"
  shows "coordinate_pairs (bounds (app (step s e)))"
proof (cases e)
  case (Settle r)
  with assms show ?thesis
    by (auto simp: fetch_settle_def refresh_rejected refresh_coordinates)
next
  case (Elapse d)
  with assms show ?thesis by (simp add: foldl_fire split: option.splits)
qed (use assms in \<open>simp_all add: fetch_start_def\<close>)

lemma run_coordinates:
  "coordinate_pairs (bounds (app s)) \<Longrightarrow> list_all benign es \<Longrightarrow>
     coordinate_pairs (bounds (app (run es s)))"
  by (induction es arbitrary: s) (simp_all add: step_coordinates)

text \<open>
  C5, as amended. In every reachable state, whatever the backend has sent,
  \<^verbatim>\<open>bounds\<close> is an array of two arrays of two entries each. The four entries are
  numbers as long as every request that settled was rejected or delivered a
  RadarMetadata document.
\<close>

theorem bounds_shape_invariant:
  "shape2x2 (bounds (app (run es init_poller))) \<and>
   (list_all benign es \<longrightarrow> coordinate_pairs (bounds (app (run es init_poller))))"
proof -
  have "shape2x2 (bounds (app init_poller))"
    by (simp add: init_poller_def init_state_def default_bounds_def shape2x2_def is_pair_def)
  moreover have "coordinate_pairs (bounds (app init_poller))"
    by (simp add: init_poller_def init_state_def default_bounds_def coordinate_pairs_def
        is_coordinate_pair_def is_num_def)
  ultimately show ?thesis
    by (simp add: run_shape run_coordinates)
qed

theorem bounds_shape_invariant_witness:
  "list_all benign [Mount, Settle (Response 503 ParseFailure), Elapse 300000,
     Settle (Response 200 (Parsed scenario_payload))] \<and>
   shape2x2 (bounds (app (run [Mount, Settle (Response 503 ParseFailure), Elapse 300000,
     Settle (Response 200 (Parsed scenario_payload))] init_poller))) \<and>
   coordinate_pairs (bounds (app (run [Mount, Settle (Response 503 ParseFailure),
     Elapse 300000, Settle (Response 200 (Parsed scenario_payload))] init_poller)))"
proof -
  have h: "list_all benign [Mount, Settle (Response 503 ParseFailure), Elapse 300000,
     Settle (Response 200 (Parsed scenario_payload))]"
    by (simp add: rejected_def delivers_metadata_def well_formed_metadata_def
        scenario_payload_def is_str_def is_num_def)
  from bounds_shape_invariant [of "[Mount, Settle (Response 503 ParseFailure),
     Elapse 300000, Settle (Response 200 (Parsed scenario_payload))]"] h
  show ?thesis by blast
qed

text \<open>
  C5 as stated fails: a response whose \<^verbatim>\<open>bounds\<close> array is empty is processed to the
  end, and the stored bounds hold \<^verbatim>\<open>undefined\<close> in all four places: nested two by two,
  but no coordinates.
\<close>

theorem empty_bounds_counterexample:
  "bounds (app (run [Mount, Settle (Response 200 (Parsed
       (JObj [(''image_url'', JStr ''http://x/img.png''),
              (''last_updated'', JStr ''2024-01-01T00:00Z''),
              (''bounds'', JArr [])])))] init_poller)) =
     JArr [JArr [JUndefined, JUndefined], JArr [JUndefined, JUndefined]] \<and>
   \<not> coordinate_pairs (bounds (app (run [Mount, Settle (Response 200 (Parsed
       (JObj [(''image_url'', JStr ''http://x/img.png''),
              (''last_updated'', JStr ''2024-01-01T00:00Z''),
              (''bounds'', JArr [])])))] init_poller)))"
  by (simp add: bounds_at_def init_poller_def init_state_def fetch_start_def
      fetch_settle_def refresh_def fetchMetadata_def coordinate_pairs_def
      is_coordinate_pair_def is_num_def)

lemma step_deactivated:
  assumes "interval s = None" and "not_mount e"
  shows "interval (step s e) = None \<and> attempts (step s e) = attempts s \<and>
     pending (step s e) \<le> pending s"
  using assms by (cases e) (simp_all add: fetch_settle_def)

lemma run_deactivated:
  "interval s = None \<Longrightarrow> list_all not_mount es \<Longrightarrow>
     interval (run es s) = None \<and> attempts (run es s) = attempts s \<and>
     pending (run es s) \<le> pending s"
proof (induction es arbitrary: s)
  case Nil
  then show ?case by simp
next
  case (Cons e es)
  from Cons.prems have e: "not_mount e" and es: "list_all not_mount es" by simp_all
  note st = step_deactivated [OF Cons.prems(1) e]
  from Cons.IH [of "step s e"] st es
  have "interval (run es (step s e)) = None \<and> attempts (run es (step s e)) = attempts (step s e)
      \<and> pending (run es (step s e)) \<le> pending (step s e)"
    by simp
  with st show ?case by simp
qed

lemma step_idle:
  assumes "interval s = None" and "pending s = 0" and "not_mount e"
  shows "app (step s e) = app s \<and> calls (step s e) = calls s"
  using assms by (cases e) (simp_all add: fetch_settle_def)

lemma run_idle:
  "interval s = None \<Longrightarrow> pending s = 0 \<Longrightarrow> list_all not_mount es \<Longrightarrow>
     app (run es s) = app s \<and> calls (run es s) = calls s"
proof (induction es arbitrary: s)
  case Nil
  then show ?case by simp
next
  case (Cons e es)
  from Cons.prems have e: "not_mount e" and es: "list_all not_mount es" by simp_all
  from step_deactivated [OF Cons.prems(1) e] Cons.prems(2)
  have "interval (step s e) = None" and "pending (step s e) = 0" by simp_all
  from Cons.IH [OF this es] step_idle [OF Cons.prems(1,2) e] show ?case by simp
qed

text \<open>
  C6, as amended. Once the timer is cleared and the component is not mounted again, no
  further request is issued and the number of requests in flight only falls. If none was
  in flight at that point, no setter is ever called again. A request that was in flight
  still runs the rest of \<^verbatim>\<open>fetchMetadata\<close> when it settles: the source has no guard, and
  the setters are called exactly as before deactivation.
\<close>

theorem after_unmount_only_requests_in_flight_call_setters:
  "interval s = None \<Longrightarrow> list_all not_mount es \<Longrightarrow>
     attempts (run es s) = attempts s \<and>
     pending (run es s) \<le> pending s \<and>
     (pending s = 0 \<longrightarrow> calls (run es s) = calls s) \<and>
     (0 < pending s \<longrightarrow> calls (step s (Settle r)) = calls s @ updates (fetchMetadata r))"
  by (simp add: run_deactivated run_idle fetch_settle_def)

theorem after_unmount_only_requests_in_flight_call_setters_witness:
  "interval (run [Mount, Settle NetworkError, Unmount] init_poller) = None \<and>
   list_all not_mount [Elapse 300001, Settle (Response 200 (Parsed scenario_payload))] \<and>
   pending (run [Mount, Settle NetworkError, Unmount] init_poller) = 0 \<and>
   attempts (run [Elapse 300001, Settle (Response 200 (Parsed scenario_payload))]
     (run [Mount, Settle NetworkError, Unmount] init_poller)) = [0] \<and>
   calls (run [Elapse 300001, Settle (Response 200 (Parsed scenario_payload))]
     (run [Mount, Settle NetworkError, Unmount] init_poller)) = []"
proof -
  let ?s = "run [Mount, Settle NetworkError, Unmount] init_poller"
  let ?es = "[Elapse 300001, Settle (Response 200 (Parsed scenario_payload))]"
  have i: "interval ?s = None"
    by (simp add: init_poller_def fetch_start_def fetch_settle_def)
  have p: "pending ?s = 0"
    by (simp add: init_poller_def fetch_start_def fetch_settle_def)
  have a: "attempts ?s = [0]"
    by (simp add: init_poller_def fetch_start_def fetch_settle_def)
  have c: "calls ?s = []"
    by (simp add: init_poller_def fetch_start_def fetch_settle_def fetchMetadata_def)
  have n: "list_all not_mount ?es" by simp
  from after_unmount_only_requests_in_flight_call_setters [OF i n, of NetworkError] i p a c n
  show ?thesis by simp
qed

text \<open>
  C6 as stated fails: a request issued at mount and still in flight at unmount settles
  afterwards, and the three setters are called with what it delivered.
\<close>

theorem assign_after_unmount_counterexample:
  "interval (run [Mount, Unmount] init_poller) = None \<and>
   calls (run [Mount, Unmount] init_poller) = [] \<and>
   calls (run [Mount, Unmount, Settle (Response 200 (Parsed scenario_payload))] init_poller) =
     [SetRadarUrl (JStr ''http://x/img.png''), SetLastUpdated (JStr ''2024-01-01T00:00Z''),
      SetBounds (JArr [JArr [JNum 25, JNum (- 120)], JArr [JNum 50, JNum (- 70)]])]"
  by (simp add: init_poller_def fetch_start_def fetch_settle_def
      fetchMetadata_def scenario_payload_def bounds_at_def)

lemma upt_split: "a \<le> b \<Longrightarrow> b \<le> c \<Longrightarrow> [a..<b] @ [b..<c] = [a..<(c::nat)]"
  using upt_add_eq_append [of a b "c - b"] by simp

lemma fire_times_append:
  "fire_times t0 c d @ fire_times t0 (c + d) d' = fire_times t0 c (d + d')"
proof -
  have "(c - t0) div interval_ms \<le> (c + d - t0) div interval_ms"
    by (intro div_le_mono) simp
  moreover have "(c + d - t0) div interval_ms \<le> (c + (d + d') - t0) div interval_ms"
    by (intro div_le_mono) simp
  ultimately show ?thesis
    unfolding fire_times_def map_append [symmetric]
    by (simp add: upt_split add.assoc del: upt_Suc)
qed

lemma fire_times_none: "fire_times t0 c 0 = []"
  by (simp add: fire_times_def)

lemma step_ticking:
  assumes "interval s = Some t0" and "ticking e"
  shows "interval (step s e) = Some t0 \<and> clock (step s e) = clock s + elapsed [e] \<and>
     attempts (step s e) = attempts s @ fire_times t0 (clock s) (elapsed [e])"
  using assms by (cases e) (simp_all add: foldl_fire fetch_settle_def fire_times_none)

lemma elapsed_Cons: "elapsed (e # es) = elapsed [e] + elapsed es"
  by (cases e) simp_all

lemma run_ticking:
  "interval s = Some t0 \<Longrightarrow> list_all ticking es \<Longrightarrow>
     interval (run es s) = Some t0 \<and> clock (run es s) = clock s + elapsed es \<and>
     attempts (run es s) = attempts s @ fire_times t0 (clock s) (elapsed es)"
proof (induction es arbitrary: s)
  case Nil
  then show ?case by (simp add: fire_times_none)
next
  case (Cons e es)
  from Cons.prems have e: "ticking e" and es: "list_all ticking es" by simp_all
  note st = step_ticking [OF Cons.prems(1) e]
  from st have i: "interval (step s e) = Some t0" by simp
  note ih = Cons.IH [OF i es]
  have "attempts (run (e # es) s) =
      attempts s @ fire_times t0 (clock s) (elapsed [e])
        @ fire_times t0 (clock s + elapsed [e]) (elapsed es)"
    using ih st by simp
  also have "\<dots> = attempts s @ fire_times t0 (clock s) (elapsed (e # es))"
    by (simp only: fire_times_append elapsed_Cons [of e es])
  finally have "attempts (run (e # es) s) =
      attempts s @ fire_times t0 (clock s) (elapsed (e # es))" .
  moreover have "clock (run (e # es) s) = clock s + elapsed (e # es)"
    using ih st by (simp add: elapsed_Cons [of e es])
  moreover have "interval (run (e # es) s) = Some t0"
    using ih by simp
  ultimately show ?case by simp
qed

lemma fire_times_from_registration:
  "clock s # fire_times (clock s) (clock s) d =
     map (\<lambda>k. clock s + k * interval_ms) [0 ..< Suc (d div interval_ms)]"
  by (simp add: fire_times_def upt_conv_Cons [of 0] del: upt_Suc)

lemma run_mounted:
  assumes "interval s = None" and "list_all ticking es"
  shows "attempts (run (Mount # es) s) =
     attempts s @ map (\<lambda>k. clock s + k * interval_ms) [0 ..< Suc (elapsed es div interval_ms)]"
proof -
  let ?m = "step s Mount"
  have i: "interval ?m = Some (clock s)" using assms(1) by simp
  have "attempts (run es ?m) = attempts ?m @ fire_times (clock s) (clock ?m) (elapsed es)"
    using run_ticking [OF i assms(2)] by simp
  also have "\<dots> = attempts s @ clock s # fire_times (clock s) (clock s) (elapsed es)"
    using assms(1) by (simp add: fetch_start_def)
  finally show ?thesis
    by (simp add: fire_times_from_registration)
qed

text \<open>
  C7. The interval is 300,000 ms. Mounting a component that has no timer issues one request
  at once; while it stays mounted, the requests issued are those at the time of mounting
  and at every multiple of 300,000 ms after it that the clock has reached. After
  unmounting, whatever time elapses and whatever settles, no request is issued and no
  timer is registered.
\<close>

theorem poller_schedule:
  "interval_ms = 300000 \<and>
   (interval s = None \<longrightarrow> attempts (step s Mount) = attempts s @ [clock s]) \<and>
   (interval s = None \<and> list_all ticking es \<longrightarrow>
      attempts (run (Mount # es) s) =
        attempts s @ map (\<lambda>k. clock s + k * 300000) [0 ..< Suc (elapsed es div 300000)]) \<and>
   (list_all not_mount es' \<longrightarrow>
      attempts (run (Unmount # es') s) = attempts s \<and>
      interval (run (Unmount # es') s) = None)"
proof -
  have ms: "interval_ms = 300000" by (simp add: interval_ms_def)
  have "list_all not_mount es' \<Longrightarrow>
      attempts (run (Unmount # es') s) = attempts s \<and> interval (run (Unmount # es') s) = None"
    using run_deactivated [of "step s Unmount" es'] by simp
  moreover have "interval s = None \<Longrightarrow> list_all ticking es \<Longrightarrow>
      attempts (run (Mount # es) s) =
      attempts s @ map (\<lambda>k. clock s + k * 300000) [0 ..< Suc (elapsed es div 300000)]"
    using run_mounted [of s es] by (simp only: ms)
  moreover have "interval s = None \<Longrightarrow> attempts (step s Mount) = attempts s @ [clock s]"
    by (simp add: fetch_start_def)
  ultimately show ?thesis using ms by blast
qed

theorem poller_schedule_witness:
  "interval init_poller = None \<and>
   list_all ticking [Elapse 299999, Settle NetworkError, Elapse 300001] \<and>
   attempts (run (Mount # [Elapse 299999, Settle NetworkError, Elapse 300001]) init_poller) =
     [0, 300000, 600000] \<and>
   list_all not_mount [Elapse 300001, Settle NetworkError, Elapse 900000] \<and>
   attempts (run (Unmount # [Elapse 300001, Settle NetworkError, Elapse 900000])
     (run [Mount, Elapse 300000] init_poller)) = [0, 300000]"
proof -
  let ?es = "[Elapse 299999, Settle NetworkError, Elapse 300001]"
  let ?es' = "[Elapse 300001, Settle NetworkError, Elapse 900000]"
  let ?s = "run [Mount, Elapse 300000] init_poller"
  have t: "list_all ticking ?es" by simp
  have n: "list_all not_mount ?es'" by simp
  have i: "interval init_poller = None" by (simp add: init_poller_def)
  have a: "attempts ?s = [0, 300000]"
    by (simp add: init_poller_def fetch_start_def fire_times_def interval_ms_def fire_def)
  have u: "[0 ..< Suc (elapsed ?es div 300000)] = [0, 1, 2]"
    by (simp add: upt_conv_Cons)
  from poller_schedule [of init_poller ?es ?es'] t i
  have "attempts (run (Mount # ?es) init_poller) =
      attempts init_poller @ map (\<lambda>k. clock init_poller + k * 300000)
        [0 ..< Suc (elapsed ?es div 300000)]" by blast
  then have m: "attempts (run (Mount # ?es) init_poller) = [0, 300000, 600000]"
    unfolding u by (simp add: init_poller_def)
  from poller_schedule [of ?s ?es ?es'] n
  have "attempts (run (Unmount # ?es') ?s) = attempts ?s" by blast
  with a t n m i show ?thesis by simp
qed







text \<open>
  C9. After two fetches in a row that both deliver a RadarMetadata document, the display
  state holds the three values of the second document and nothing of the first. More
  generally the state after any refresh whose \<^verbatim>\<open>try\<close> block runs to its end is the same
  whatever the state before it was.
\<close>

theorem second_fetch_replaces_first:
  "(is_radar_metadata d1 u1 t1 s1 w1 n1 e1 \<and> is_radar_metadata d2 u2 t2 s2 w2 n2 e2 \<longrightarrow>
      display (refresh (Response st2 (Parsed d2)) (refresh (Response st1 (Parsed d1)) a)) =
        (JStr u2, JStr t2, JArr [JArr [JNum s2, JNum w2], JArr [JNum n2, JNum e2]])) \<and>
   (snd (try_block r2) = None \<longrightarrow>
      display (refresh r2 (refresh r1 a)) = display (refresh r2 a'))"
proof -
  have "display (refresh r2 (refresh r1 a)) = display (refresh r2 a')"
    if "snd (try_block r2) = None"
    using that try_block_cases [of r2]
    by (auto simp: refresh_def fetchMetadata_def display_def)
  moreover have "display (refresh (Response st2 (Parsed d2))
      (refresh (Response st1 (Parsed d1)) a)) =
      (JStr u2, JStr t2, JArr [JArr [JNum s2, JNum w2], JArr [JNum n2, JNum e2]])"
    if "is_radar_metadata d2 u2 t2 s2 w2 n2 e2"
    by (simp add: refresh_metadata [OF that] display_def)
  ultimately show ?thesis by blast
qed

theorem second_fetch_replaces_first_witness:
  "is_radar_metadata scenario_payload ''http://x/img.png'' ''2024-01-01T00:00Z''
     25 (- 120) 50 (- 70) \<and>
   is_radar_metadata
     (JObj [(''image_url'', JStr ''http://x/next.png''),
            (''last_updated'', JStr ''2024-01-01T00:05Z''),
            (''bounds'', JArr [JNum 21, JNum (- 129), JNum 54, JNum (- 61)])])
     ''http://x/next.png'' ''2024-01-01T00:05Z'' 21 (- 129) 54 (- 61) \<and>
   display (refresh (Response 200 (Parsed
     (JObj [(''image_url'', JStr ''http://x/next.png''),
            (''last_updated'', JStr ''2024-01-01T00:05Z''),
            (''bounds'', JArr [JNum 21, JNum (- 129), JNum 54, JNum (- 61)])])))
     (refresh (Response 200 (Parsed scenario_payload)) init_state)) =
     (JStr ''http://x/next.png'', JStr ''2024-01-01T00:05Z'',
      JArr [JArr [JNum 21, JNum (- 129)], JArr [JNum 54, JNum (- 61)]])"
proof -
  let ?d2 = "JObj [(''image_url'', JStr ''http://x/next.png''),
            (''last_updated'', JStr ''2024-01-01T00:05Z''),
            (''bounds'', JArr [JNum 21, JNum (- 129), JNum 54, JNum (- 61)])]"
  have h1: "is_radar_metadata scenario_payload ''http://x/img.png'' ''2024-01-01T00:00Z''
     25 (- 120) 50 (- 70)"
    by (simp add: is_radar_metadata_def scenario_payload_def)
  have h2: "is_radar_metadata ?d2 ''http://x/next.png'' ''2024-01-01T00:05Z''
     21 (- 129) 54 (- 61)"
    by (simp add: is_radar_metadata_def)
  from second_fetch_replaces_first [of scenario_payload "''http://x/img.png''"
      "''2024-01-01T00:00Z''" 25 "- 120" 50 "- 70" ?d2 "''http://x/next.png''"
      "''2024-01-01T00:05Z''" 21 "- 129" 54 "- 61" 200 200 init_state] h1 h2
  show ?thesis by blast
qed

lemma step_keeps_metadata: "metadata (app (step s e)) = metadata (app s)"
  using step_app [of s e] by (auto simp: refresh_keeps_metadata)

lemma run_keeps_metadata: "metadata (app (run es s)) = metadata (app s)"
  by (induction es arbitrary: s) (simp_all add: step_keeps_metadata)

text \<open>
  C10. \<^verbatim>\<open>metadata\<close> starts as \<^verbatim>\<open>null\<close> and no event changes it: no run of
  \<^verbatim>\<open>fetchMetadata\<close> assigns it, so it is \<^verbatim>\<open>null\<close> in every reachable state.
\<close>

theorem metadata_stays_null:
  "metadata (app (run es init_poller)) = JNull \<and>
   metadata (app (run es s)) = metadata (app s) \<and>
   metadata (refresh r a) = metadata a"
  by (simp add: run_keeps_metadata refresh_keeps_metadata init_poller_def init_state_def)

end
